theory Spec2Isabelle
  imports Main "HOL-Library.Word" "HOL-Library.Sublist"
begin

section \<open>JavaScript strings\<close>

text \<open>
  A JavaScript string is a sequence of UTF-16 code units. The literals of
  \<^verbatim>\<open>script.js\<close> are ASCII, so each of their characters is one code unit.
\<close>

type_synonym code_unit = "16 word"
type_synonym jsstring = "code_unit list"

definition js :: "string \<Rightarrow> jsstring" where
  "js = map of_char"

text \<open>
  \<^verbatim>\<open>String.prototype.trim\<close> removes the code points of the ECMAScript productions
  WhiteSpace (TAB, VT, FF, SP, NBSP, ZWNBSP and the category Zs) and LineTerminator
  (LF, CR, LS, PS) from both ends. All of them lie in the basic plane.
\<close>

definition isWhiteSpace :: "code_unit \<Rightarrow> bool" where
  "isWhiteSpace c \<longleftrightarrow>
     c = 0x9 \<or> c = 0xA \<or> c = 0xB \<or> c = 0xC \<or> c = 0xD \<or> c = 0x20 \<or> c = 0xA0 \<or>
     c = 0x1680 \<or> (0x2000 \<le> c \<and> c \<le> 0x200A) \<or> c = 0x2028 \<or> c = 0x2029 \<or>
     c = 0x202F \<or> c = 0x205F \<or> c = 0x3000 \<or> c = 0xFEFF"

definition trim :: "jsstring \<Rightarrow> jsstring" where
  "trim s = rev (dropWhile isWhiteSpace (rev (dropWhile isWhiteSpace s)))"

section \<open>The page: panel, input field, timers\<close>

text \<open>
  A child of the panel is a \<^verbatim>\<open>div\<close> of which the script sets two properties: the class
  name and the markup assigned to \<^verbatim>\<open>innerHTML\<close>. The field \<open>innerHTML\<close> holds the string
  that was assigned; the script never reads it back.
\<close>

record element =
  className :: jsstring
  innerHTML :: jsstring

text \<open>
  A pending \<^verbatim>\<open>setTimeout\<close> task: the time at which it becomes due and the value of
  \<^verbatim>\<open>userText\<close> that its closure captured.
\<close>

record timer =
  due :: nat
  captured :: jsstring

record state =
  userInput_value :: jsstring
  chatWindow_children :: "element list"
  chatWindow_scrollTop :: nat
  timers :: "timer list"
  now :: nat

text \<open>
  The geometry of the panel comes from the style sheet and the layout engine, which are
  not part of the script: it is a parameter. \<open>contentHeight\<close> is the height of the laid-out
  children, \<open>clientHeight\<close> the height of the visible box, both in pixels.
\<close>

record layout =
  contentHeight :: "element list \<Rightarrow> nat"
  clientHeight :: nat

definition scrollHeight :: "layout \<Rightarrow> state \<Rightarrow> nat" where
  "scrollHeight L s = max (contentHeight L (chatWindow_children s)) (clientHeight L)"

definition maxScrollTop :: "layout \<Rightarrow> state \<Rightarrow> nat" where
  "maxScrollTop L s = scrollHeight L s - clientHeight L"

text \<open>Assigning \<^verbatim>\<open>scrollTop\<close> clamps the value to the scrollable range.\<close>

definition set_scrollTop :: "layout \<Rightarrow> nat \<Rightarrow> state \<Rightarrow> state" where
  "set_scrollTop L v s = s\<lparr>chatWindow_scrollTop := min v (maxScrollTop L s)\<rparr>"

definition appendChild :: "element \<Rightarrow> state \<Rightarrow> state" where
  "appendChild e s = s\<lparr>chatWindow_children := chatWindow_children s @ [e]\<rparr>"

text \<open>
  \<^verbatim>\<open>setTimeout(callback, delay)\<close>: the task joins the queue of pending timers. The only
  callback of the script is the closure of \<^verbatim>\<open>sendMessage\<close>, given here by the
  \<^verbatim>\<open>userText\<close> it captured.
\<close>

definition setTimeout :: "jsstring \<Rightarrow> nat \<Rightarrow> state \<Rightarrow> state" where
  "setTimeout userText delay s =
     s\<lparr>timers := timers s @ [\<lparr>due = now s + delay, captured = userText\<rparr>]\<rparr>"

section \<open>The script\<close>

definition userMessageDiv :: "jsstring \<Rightarrow> element" where
  \<open>userMessageDiv text =
     \<lparr>className = js ''message user-message'',
      innerHTML = js ''<span class="message-text">'' @ text @ js ''</span>''\<rparr>\<close>

definition aiMessageDiv :: "jsstring \<Rightarrow> element" where
  \<open>aiMessageDiv text =
     \<lparr>className = js ''message ai-message'',
      innerHTML = js ''<span class="message-text">This is a simulated AI response to "'' @ text
                  @ js ''".</span>''\<rparr>\<close>

text \<open>The arrow function passed to \<^verbatim>\<open>setTimeout\<close>, with its captured \<^verbatim>\<open>userText\<close>.\<close>

definition timeout_callback :: "layout \<Rightarrow> jsstring \<Rightarrow> state \<Rightarrow> state" where
  "timeout_callback L userText s =
     (let s1 = appendChild (aiMessageDiv userText) s
      in set_scrollTop L (scrollHeight L s1) s1)"

definition sendMessage :: "layout \<Rightarrow> state \<Rightarrow> state" where
  "sendMessage L s =
     (let userText = trim (userInput_value s) in
      if userText \<noteq> [] then
        let s1 = appendChild (userMessageDiv userText) s;
            s2 = set_scrollTop L (scrollHeight L s1) s1;
            s3 = s2\<lparr>userInput_value := []\<rparr>
        in setTimeout userText 1000 s3
      else s)"

section \<open>Event listeners and the event loop\<close>

text \<open>
  The \<^verbatim>\<open>DOMContentLoaded\<close> handler registers two listeners: \<^verbatim>\<open>sendMessage\<close> itself for
  \<^verbatim>\<open>click\<close> on the send button, and an arrow function for \<^verbatim>\<open>keypress\<close> on the input field.
  An event carries its type and, for keyboard events, the value of \<^verbatim>\<open>event.key\<close>.
\<close>

datatype target = SendBtn | UserInput

record event =
  event_type :: jsstring
  event_key :: "jsstring option"

definition click_listener :: "layout \<Rightarrow> event \<Rightarrow> state \<Rightarrow> state" where
  "click_listener L ev s = sendMessage L s"

definition keypress_listener :: "layout \<Rightarrow> event \<Rightarrow> state \<Rightarrow> state" where
  "keypress_listener L ev s =
     (if event_key ev = Some (js ''Enter'') then sendMessage L s else s)"

definition dispatchEvent :: "layout \<Rightarrow> target \<Rightarrow> event \<Rightarrow> state \<Rightarrow> state" where
  "dispatchEvent L tgt ev s =
     (case tgt of
        SendBtn \<Rightarrow> if event_type ev = js ''click'' then click_listener L ev s else s
      | UserInput \<Rightarrow> if event_type ev = js ''keypress'' then keypress_listener L ev s else s)"

text \<open>
  The event loop runs one task at a time: an event dispatched to one of the two elements,
  the user editing the input field or scrolling the panel, time passing, or the oldest
  pending timer running its callback once it is due. Every timer of the script has the
  same delay, and timers of equal delay run in the order of their \<^verbatim>\<open>setTimeout\<close> calls,
  so the pending timers form a queue. A timer is one-shot: it leaves the queue when it runs.
  A task that cannot run in a state yields \<open>None\<close>.
\<close>

datatype task =
    Dispatch target event
  | Edit jsstring
  | Scroll nat
  | Elapse nat
  | TimerTask

fun step :: "layout \<Rightarrow> task \<Rightarrow> state \<Rightarrow> state option" where
  "step L (Dispatch tgt ev) s = Some (dispatchEvent L tgt ev s)"
| "step L (Edit v) s = Some (s\<lparr>userInput_value := v\<rparr>)"
| "step L (Scroll v) s = Some (set_scrollTop L v s)"
| "step L (Elapse d) s = Some (s\<lparr>now := now s + d\<rparr>)"
| "step L TimerTask s =
     (case timers s of
        [] \<Rightarrow> None
      | t # ts \<Rightarrow>
          if due t \<le> now s then Some (timeout_callback L (captured t) (s\<lparr>timers := ts\<rparr>))
          else None)"

fun run :: "layout \<Rightarrow> task list \<Rightarrow> state \<Rightarrow> state option" where
  "run L [] s = Some s"
| "run L (t # ts) s = (case step L t s of None \<Rightarrow> None | Some s' \<Rightarrow> run L ts s')"

definition click :: event where
  "click = \<lparr>event_type = js ''click'', event_key = None\<rparr>"

definition keyboard_event :: "string \<Rightarrow> jsstring \<Rightarrow> event" where
  "keyboard_event ty k = \<lparr>event_type = js ty, event_key = Some k\<rparr>"

section \<open>What a message shows\<close>

text \<open>
  Assigning \<^verbatim>\<open>innerHTML\<close> runs the HTML fragment parser on the string, and what the
  message then shows is the text content of the parsed children. The parser belongs to the
  browser, not to the script. The function below follows the states of the HTML tokenizer
  on a fragment of the language: text without \<^verbatim>\<open><\<close>, \<^verbatim>\<open>&\<close>, NUL and CR, and start and end
  tags of a few phrasing elements, in lower case, with attributes of the form
  \<^verbatim>\<open>name="value"\<close>. Such elements keep every character token in document order, so the
  text content is the sequence of character tokens. On any other markup the result is
  \<open>None\<close>: nothing is said about it.

  The code units that matter: \<^verbatim>\<open><\<close> is 0x3C, \<^verbatim>\<open>>\<close> 0x3E, \<^verbatim>\<open>/\<close> 0x2F, \<^verbatim>\<open>&\<close> 0x26, \<^verbatim>\<open>=\<close> 0x3D,
  the double quote 0x22, \<^verbatim>\<open>-\<close> 0x2D, the letters \<^verbatim>\<open>a\<close> to \<^verbatim>\<open>z\<close> 0x61 to 0x7A; TAB, LF, FF and
  the space (0x9, 0xA, 0xC, 0x20) separate attributes.
\<close>

datatype tokenizer_state =
    Data
  | TagOpen
  | EndTagOpen
  | TagName jsstring
  | BeforeAttributeName
  | AttributeName
  | BeforeAttributeValue
  | AttributeValueDoubleQuoted
  | AfterAttributeValueQuoted

definition phrasing_tag :: "jsstring \<Rightarrow> bool" where
  "phrasing_tag n \<longleftrightarrow>
     n = js ''span'' \<or> n = js ''b'' \<or> n = js ''i'' \<or> n = js ''em'' \<or> n = js ''strong'' \<or> n = js ''u''"

definition lower_alpha :: "code_unit \<Rightarrow> bool" where
  "lower_alpha c \<longleftrightarrow> 0x61 \<le> c \<and> c \<le> 0x7A"

definition html_space :: "code_unit \<Rightarrow> bool" where
  "html_space c \<longleftrightarrow> c = 0x9 \<or> c = 0xA \<or> c = 0xC \<or> c = 0x20"

definition plain_char :: "code_unit \<Rightarrow> bool" where
  "plain_char c \<longleftrightarrow> c \<noteq> 0x3C \<and> c \<noteq> 0x26 \<and> c \<noteq> 0 \<and> c \<noteq> 0xD"

fun character_tokens :: "tokenizer_state \<Rightarrow> jsstring \<Rightarrow> jsstring option" where
  "character_tokens Data [] = Some []"
| "character_tokens Data (c # cs) =
     (if c = 0x3C then character_tokens TagOpen cs
      else if plain_char c then map_option ((#) c) (character_tokens Data cs)
      else None)"
| "character_tokens TagOpen (c # cs) =
     (if c = 0x2F then character_tokens EndTagOpen cs
      else if lower_alpha c then character_tokens (TagName [c]) cs
      else None)"
| "character_tokens EndTagOpen (c # cs) =
     (if lower_alpha c then character_tokens (TagName [c]) cs else None)"
| "character_tokens (TagName n) (c # cs) =
     (if lower_alpha c then character_tokens (TagName (n @ [c])) cs
      else if \<not> phrasing_tag n then None
      else if html_space c then character_tokens BeforeAttributeName cs
      else if c = 0x3E then character_tokens Data cs
      else None)"
| "character_tokens BeforeAttributeName (c # cs) =
     (if html_space c then character_tokens BeforeAttributeName cs
      else if c = 0x3E then character_tokens Data cs
      else if lower_alpha c then character_tokens AttributeName cs
      else None)"
| "character_tokens AttributeName (c # cs) =
     (if lower_alpha c \<or> c = 0x2D then character_tokens AttributeName cs
      else if c = 0x3D then character_tokens BeforeAttributeValue cs
      else None)"
| "character_tokens BeforeAttributeValue (c # cs) =
     (if c = 0x22 then character_tokens AttributeValueDoubleQuoted cs else None)"
| "character_tokens AttributeValueDoubleQuoted (c # cs) =
     (if c = 0x22 then character_tokens AfterAttributeValueQuoted cs
      else if c = 0x26 \<or> c = 0 \<or> c = 0xD then None
      else character_tokens AttributeValueDoubleQuoted cs)"
| "character_tokens AfterAttributeValueQuoted (c # cs) =
     (if html_space c then character_tokens BeforeAttributeName cs
      else if c = 0x3E then character_tokens Data cs
      else None)"
| "character_tokens _ [] = None"

definition textContent :: "element \<Rightarrow> jsstring option" where
  "textContent e = character_tokens Data (innerHTML e)"

section \<open>Roles and counts\<close>

text \<open>The role of a message is the class the script gave its \<^verbatim>\<open>div\<close>.\<close>

definition is_user :: "element \<Rightarrow> bool" where
  "is_user e \<longleftrightarrow> className e = js ''message user-message''"

definition is_assistant :: "element \<Rightarrow> bool" where
  "is_assistant e \<longleftrightarrow> className e = js ''message ai-message''"

definition user_count :: "state \<Rightarrow> nat" where
  "user_count s = length (filter is_user (chatWindow_children s))"

definition assistant_count :: "state \<Rightarrow> nat" where
  "assistant_count s = length (filter is_assistant (chatWindow_children s))"

text \<open>The text of the assistant's reply, as the template literal of the callback spells it.\<close>

definition response_text :: "jsstring \<Rightarrow> jsstring" where
  \<open>response_text userText = js ''This is a simulated AI response to "'' @ userText @ js ''".''\<close>

section \<open>A concrete page\<close>

definition example_layout :: layout where
  "example_layout = \<lparr>contentHeight = (\<lambda>cs. 40 * length cs), clientHeight = 100\<rparr>"

definition empty_page :: state where
  "empty_page =
     \<lparr>userInput_value = [], chatWindow_children = [], chatWindow_scrollTop = 0,
      timers = [], now = 0\<rparr>"

text \<open>A page in use: three messages shown, one reply still pending, text typed in the field.\<close>

definition busy_page :: state where
  "busy_page =
     \<lparr>userInput_value = js '' hi  '',
      chatWindow_children = [userMessageDiv (js ''a''), aiMessageDiv (js ''a''), userMessageDiv (js ''b'')],
      chatWindow_scrollTop = 20,
      timers = [\<lparr>due = 1700, captured = js ''b''\<rparr>],
      now = 1200\<rparr>"

definition Enter_keypress :: event where
  "Enter_keypress = keyboard_event ''keypress'' (js ''Enter'')"

definition hello_page :: state where
  "hello_page = empty_page\<lparr>userInput_value := js ''  hello ''\<rparr>"

definition markup_page :: state where
  "markup_page = empty_page\<lparr>userInput_value := js ''<i>hi</i>''\<rparr>"

text \<open>Two sessions: tasks of the event loop, in the order in which they run.\<close>

definition session :: "task list" where
  "session = [Dispatch SendBtn click, Edit (js ''x''), Scroll 5, Elapse 500, TimerTask,
      Dispatch UserInput Enter_keypress, Elapse 1000, TimerTask, TimerTask]"

definition half_session :: "task list" where
  "half_session = [Dispatch SendBtn click, Edit (js ''x''), Dispatch UserInput Enter_keypress,
      Elapse 1000, TimerTask]"

text \<open>The same page seen later, scrolled, and a second geometry.\<close>

definition other_layout :: layout where
  "other_layout = \<lparr>contentHeight = (\<lambda>cs. 1000), clientHeight = 10\<rparr>"

definition later_page :: state where
  "later_page = hello_page\<lparr>chatWindow_scrollTop := 7, now := 5000\<rparr>"

section \<open>Basic facts\<close>

lemma dropWhile_all_iff: "(\<forall>x\<in>set (dropWhile P xs). P x) \<longleftrightarrow> (\<forall>x\<in>set xs. P x)"
proof
  assume a: "\<forall>x\<in>set (dropWhile P xs). P x"
  have "dropWhile P xs = []"
  proof (rule ccontr)
    assume n: "dropWhile P xs \<noteq> []"
    then have "\<not> P (hd (dropWhile P xs))" by (rule hd_dropWhile)
    moreover from n have "hd (dropWhile P xs) \<in> set (dropWhile P xs)" by simp
    ultimately show False using a by blast
  qed
  then show "\<forall>x\<in>set xs. P x" by (simp add: dropWhile_eq_Nil_conv)
next
  assume "\<forall>x\<in>set xs. P x"
  then show "\<forall>x\<in>set (dropWhile P xs). P x" by (auto dest: set_dropWhileD)
qed

text \<open>The trimmed string is empty exactly when every code unit of the string is white space.\<close>

lemma trim_Nil_iff: "trim v = [] \<longleftrightarrow> (\<forall>c\<in>set v. isWhiteSpace c)"
  by (simp add: trim_def dropWhile_eq_Nil_conv dropWhile_all_iff)

lemma sendMessage_noop: "trim (userInput_value s) = [] \<Longrightarrow> sendMessage L s = s"
  by (simp add: sendMessage_def)

lemma sendMessage_eq:
  "trim (userInput_value s) \<noteq> [] \<Longrightarrow>
   sendMessage L s =
     s\<lparr>userInput_value := [],
       chatWindow_children := chatWindow_children s @ [userMessageDiv (trim (userInput_value s))],
       chatWindow_scrollTop :=
         max (contentHeight L (chatWindow_children s @ [userMessageDiv (trim (userInput_value s))]))
             (clientHeight L) - clientHeight L,
       timers := timers s @ [\<lparr>due = now s + 1000, captured = trim (userInput_value s)\<rparr>]\<rparr>"
  by (simp add: sendMessage_def Let_def appendChild_def set_scrollTop_def setTimeout_def
      scrollHeight_def maxScrollTop_def)

lemma timeout_callback_eq:
  "timeout_callback L t s =
     s\<lparr>chatWindow_children := chatWindow_children s @ [aiMessageDiv t],
       chatWindow_scrollTop :=
         max (contentHeight L (chatWindow_children s @ [aiMessageDiv t])) (clientHeight L)
           - clientHeight L\<rparr>"
  by (simp add: timeout_callback_def Let_def appendChild_def set_scrollTop_def
      scrollHeight_def maxScrollTop_def)

lemma dispatch_click: "dispatchEvent L SendBtn click s = sendMessage L s"
  by (simp add: dispatchEvent_def click_listener_def click_def)

lemma dispatch_keypress_Enter:
  "dispatchEvent L UserInput (keyboard_event ''keypress'' (js ''Enter'')) s = sendMessage L s"
  by (simp add: dispatchEvent_def keypress_listener_def keyboard_event_def)

lemma dispatchEvent_cases:
  "dispatchEvent L tgt ev s = s \<or> dispatchEvent L tgt ev s = sendMessage L s"
  by (simp add: dispatchEvent_def click_listener_def keypress_listener_def split: target.splits)

lemma dispatchEvent_changes:
  "dispatchEvent L tgt ev s \<noteq> s \<Longrightarrow>
     tgt = SendBtn \<and> event_type ev = js ''click'' \<or>
     tgt = UserInput \<and> event_type ev = js ''keypress'' \<and> event_key ev = Some (js ''Enter'')"
  by (cases tgt) (auto simp: dispatchEvent_def keypress_listener_def split: if_splits)

text \<open>Text without markup passes through the tokenizer unchanged.\<close>

lemma map_option_Cons_append:
  "map_option ((#) c) (map_option ((@) xs) r) = map_option ((@) (c # xs)) r"
  by (cases r) simp_all

lemma character_tokens_plain:
  "\<forall>c\<in>set xs. plain_char c \<Longrightarrow>
   character_tokens Data (xs @ ys) = map_option ((@) xs) (character_tokens Data ys)"
proof (induction xs)
  case Nil
  show ?case by (simp add: option.map_ident)
next
  case (Cons c xs)
  then have c: "plain_char c" and "c \<noteq> 0x3C" by (simp_all add: plain_char_def)
  with Cons show ?case by (cases "character_tokens Data ys") simp_all
qed

lemma span_open:
  \<open>character_tokens Data (js ''<span class="message-text">'' @ r) = character_tokens Data r\<close>
  by (simp add: js_def lower_alpha_def html_space_def phrasing_tag_def)

lemma span_close: \<open>character_tokens Data (js ''</span>'') = Some []\<close>
  by (simp add: js_def lower_alpha_def html_space_def phrasing_tag_def)

lemma response_prefix_plain: \<open>\<forall>c\<in>set (js ''This is a simulated AI response to "''). plain_char c\<close>
  by (simp add: js_def plain_char_def)

lemma textContent_userMessageDiv:
  "\<forall>c\<in>set t. plain_char c \<Longrightarrow> textContent (userMessageDiv t) = Some t"
  by (simp add: textContent_def userMessageDiv_def span_open character_tokens_plain span_close)

lemma aiMessageDiv_innerHTML:
  \<open>innerHTML (aiMessageDiv t) = js ''<span class="message-text">'' @ response_text t @ js ''</span>''\<close>
  by (simp add: aiMessageDiv_def response_text_def js_def)

lemma textContent_aiMessageDiv:
  assumes "\<forall>c\<in>set t. plain_char c"
  shows "textContent (aiMessageDiv t) = Some (response_text t)"
proof -
  have "\<forall>c\<in>set (response_text t). plain_char c"
    using assms response_prefix_plain by (auto simp: response_text_def js_def plain_char_def)
  then show ?thesis
    by (simp add: textContent_def aiMessageDiv_innerHTML span_open character_tokens_plain span_close)
qed

lemma step_TimerTask_Some:
  "step L TimerTask s1 = Some s2 \<Longrightarrow>
     \<exists>t ts. timers s1 = t # ts \<and> due t \<le> now s1 \<and> timers s2 = ts \<and> now s2 = now s1 \<and>
       userInput_value s2 = userInput_value s1 \<and>
       chatWindow_children s2 = chatWindow_children s1 @ [aiMessageDiv (captured t)]"
  by (auto simp: timeout_callback_eq split: list.splits if_splits)

lemma is_user_simps [simp]:
  "is_user (userMessageDiv t)" "\<not> is_user (aiMessageDiv t)"
  "is_assistant (aiMessageDiv t)" "\<not> is_assistant (userMessageDiv t)"
  by (simp_all add: is_user_def is_assistant_def userMessageDiv_def aiMessageDiv_def js_def)

section \<open>Blank input\<close>

text \<open>
  C2. When the trimmed value of the input field is empty, which is the case exactly when
  the value is empty or consists of white space only, \<^verbatim>\<open>sendMessage\<close> changes nothing: no
  child is appended, the value of the field stays as it is, no timer is scheduled, the
  scroll offset and the clock are untouched. The same holds when it is called through
  either listener, and what the event loop does afterwards is what it would have done
  without the call. The function has no failing branch.
\<close>

theorem sendMessage_blank_noop:
  "trim (userInput_value s) = [] \<or> (\<forall>c\<in>set (userInput_value s). isWhiteSpace c) \<Longrightarrow>
     sendMessage L s = s \<and>
     step L (Dispatch SendBtn click) s = Some s \<and>
     step L (Dispatch UserInput (keyboard_event ''keypress'' (js ''Enter''))) s = Some s \<and>
     run L [Dispatch SendBtn click, Elapse d, TimerTask] s = run L [Elapse d, TimerTask] s"
proof -
  assume "trim (userInput_value s) = [] \<or> (\<forall>c\<in>set (userInput_value s). isWhiteSpace c)"
  then have "trim (userInput_value s) = []" by (simp add: trim_Nil_iff)
  then show ?thesis by (simp add: sendMessage_noop dispatch_click dispatch_keypress_Enter)
qed

theorem sendMessage_blank_noop_witness:
  "trim (userInput_value (busy_page\<lparr>userInput_value := js ''   ''\<rparr>)) = [] \<and>
   sendMessage example_layout (busy_page\<lparr>userInput_value := js ''   ''\<rparr>)
     = busy_page\<lparr>userInput_value := js ''   ''\<rparr> \<and>
   userInput_value (sendMessage example_layout (busy_page\<lparr>userInput_value := js ''   ''\<rparr>))
     = js ''   '' \<and>
   timers (sendMessage example_layout (busy_page\<lparr>userInput_value := js ''   ''\<rparr>)) = timers busy_page \<and>
   trim (userInput_value empty_page) = [] \<and>
   sendMessage example_layout empty_page = empty_page"
proof -
  have h: "\<forall>c\<in>set (userInput_value (busy_page\<lparr>userInput_value := js ''   ''\<rparr>)). isWhiteSpace c"
    by (simp add: js_def isWhiteSpace_def)
  have t: "trim (userInput_value (busy_page\<lparr>userInput_value := js ''   ''\<rparr>)) = []"
    by (simp add: trim_def js_def isWhiteSpace_def)
  have e: "trim (userInput_value empty_page) = []"
    by (simp add: empty_page_def trim_def)
  from sendMessage_blank_noop [OF disjI2, OF h, of example_layout]
  have a: "sendMessage example_layout (busy_page\<lparr>userInput_value := js ''   ''\<rparr>)
     = busy_page\<lparr>userInput_value := js ''   ''\<rparr>"
    by blast
  from sendMessage_blank_noop [OF disjI1, OF e, of example_layout]
  have b: "sendMessage example_layout empty_page = empty_page"
    by blast
  from t e a b show ?thesis by simp
qed

section \<open>Clearing the field and scrolling\<close>

text \<open>
  C6. After a submit whose trimmed text is not empty, the value of the input field is the
  empty string and the scroll offset of the panel is its maximum, computed on the panel
  with the new child. After the callback of a timer has appended its message, whatever text
  it captured and whatever state it runs in, the scroll offset is again the maximum.
\<close>

theorem submit_clears_and_scrolls:
  "trim (userInput_value s) \<noteq> [] \<Longrightarrow>
     userInput_value (sendMessage L s) = [] \<and>
     chatWindow_scrollTop (sendMessage L s) = maxScrollTop L (sendMessage L s) \<and>
     chatWindow_scrollTop (timeout_callback L t s') = maxScrollTop L (timeout_callback L t s') \<and>
     (\<forall>s1 s2. step L TimerTask s1 = Some s2 \<longrightarrow> chatWindow_scrollTop s2 = maxScrollTop L s2)"
  by (auto simp: sendMessage_eq timeout_callback_eq maxScrollTop_def scrollHeight_def
      split: list.splits if_splits)

theorem submit_clears_and_scrolls_witness:
  "trim (userInput_value busy_page) \<noteq> [] \<and>
   userInput_value (sendMessage example_layout busy_page) = [] \<and>
   chatWindow_scrollTop (sendMessage example_layout busy_page) = 60 \<and>
   maxScrollTop example_layout (sendMessage example_layout busy_page) = 60 \<and>
   (\<exists>s2. step example_layout TimerTask (busy_page\<lparr>now := 1700\<rparr>) = Some s2 \<and>
      chatWindow_scrollTop s2 = maxScrollTop example_layout s2 \<and> chatWindow_scrollTop s2 = 60)"
proof -
  have h: "trim (userInput_value busy_page) \<noteq> []"
    by (simp add: busy_page_def trim_def js_def isWhiteSpace_def)
  have m: "maxScrollTop example_layout (sendMessage example_layout busy_page) = 60"
    using h by (simp add: sendMessage_eq maxScrollTop_def scrollHeight_def)
      (simp add: busy_page_def example_layout_def)
  note T = submit_clears_and_scrolls [OF h, of example_layout]
  from T have a: "userInput_value (sendMessage example_layout busy_page) = []"
    by blast
  from T have "chatWindow_scrollTop (sendMessage example_layout busy_page)
      = maxScrollTop example_layout (sendMessage example_layout busy_page)"
    by blast
  with m have b: "chatWindow_scrollTop (sendMessage example_layout busy_page) = 60"
    by (simp only:)
  define s2 where
    "s2 = timeout_callback example_layout (js ''b'') (busy_page\<lparr>now := 1700, timers := []\<rparr>)"
  have f: "step example_layout TimerTask (busy_page\<lparr>now := 1700\<rparr>) = Some s2"
    by (simp add: s2_def busy_page_def)
  with T have c: "chatWindow_scrollTop s2 = maxScrollTop example_layout s2"
    by blast
  have "maxScrollTop example_layout s2 = 60"
    by (simp add: s2_def timeout_callback_eq maxScrollTop_def scrollHeight_def
        busy_page_def example_layout_def)
  with c have d: "chatWindow_scrollTop s2 = 60"
    by (simp only:)
  from h a b m f c d show ?thesis by blast
qed

section \<open>One submission\<close>

text \<open>
  C1, amended. Let \<open>S\<close> be the trimmed value of the input field, not empty. Then
  \<^verbatim>\<open>sendMessage\<close> appends exactly one child, of class \<^verbatim>\<open>message user-message\<close>, whose
  \<^verbatim>\<open>innerHTML\<close> is \<open>S\<close> placed verbatim in the \<^verbatim>\<open>span\<close> template, and schedules exactly one
  timer, due 1000 ms later, that captured \<open>S\<close>. A timer task runs only when the oldest
  pending timer is due, removes it, and appends exactly one child, of class
  \<^verbatim>\<open>message ai-message\<close>, whose \<^verbatim>\<open>innerHTML\<close> is the reply template around the captured
  text. With no other timer pending, the reply cannot appear before 1000 ms have passed,
  and once they have, the panel has grown by the user message and the reply and by nothing
  else. When \<open>S\<close> contains none of \<^verbatim>\<open><\<close>, \<^verbatim>\<open>&\<close>, NUL and CR, the user message shows \<open>S\<close> and
  the reply shows the template text around \<open>S\<close>.
\<close>

theorem submit_appends_user_then_assistant:
  assumes "trim (userInput_value s) = S" and "S \<noteq> []"
  shows \<open>chatWindow_children (sendMessage L s) = chatWindow_children s @ [userMessageDiv S] \<and>
     timers (sendMessage L s) = timers s @ [\<lparr>due = now s + 1000, captured = S\<rparr>] \<and>
     chatWindow_children (timeout_callback L S s') = chatWindow_children s' @ [aiMessageDiv S] \<and>
     (\<forall>s1 s2. step L TimerTask s1 = Some s2 \<longrightarrow>
        (\<exists>t ts. timers s1 = t # ts \<and> due t \<le> now s1 \<and> timers s2 = ts \<and>
           chatWindow_children s2 = chatWindow_children s1 @ [aiMessageDiv (captured t)])) \<and>
     (timers s = [] \<longrightarrow>
        (\<forall>d<1000. run L [Elapse d, TimerTask] (sendMessage L s) = None) \<and>
        (\<forall>d\<ge>1000. \<exists>s2. run L [Elapse d, TimerTask] (sendMessage L s) = Some s2 \<and>
           chatWindow_children s2 = chatWindow_children s @ [userMessageDiv S, aiMessageDiv S] \<and>
           timers s2 = [])) \<and>
     is_user (userMessageDiv S) \<and> is_assistant (aiMessageDiv S) \<and>
     innerHTML (userMessageDiv S) = js ''<span class="message-text">'' @ S @ js ''</span>'' \<and>
     innerHTML (aiMessageDiv S) =
       js ''<span class="message-text">This is a simulated AI response to "'' @ S @ js ''".</span>'' \<and>
     ((\<forall>c\<in>set S. plain_char c) \<longrightarrow>
        textContent (userMessageDiv S) = Some S \<and>
        textContent (aiMessageDiv S) = Some (response_text S))\<close>
proof -
  from assms have ne: "trim (userInput_value s) \<noteq> []" by simp
  have 1: "chatWindow_children (sendMessage L s) = chatWindow_children s @ [userMessageDiv S]"
    using assms by (simp add: sendMessage_eq [OF ne])
  have 2: "timers (sendMessage L s) = timers s @ [\<lparr>due = now s + 1000, captured = S\<rparr>]"
    using assms by (simp add: sendMessage_eq [OF ne])
  have 3: "chatWindow_children (timeout_callback L S s') = chatWindow_children s' @ [aiMessageDiv S]"
    by (simp add: timeout_callback_eq)
  have 4: "\<forall>s1 s2. step L TimerTask s1 = Some s2 \<longrightarrow>
        (\<exists>t ts. timers s1 = t # ts \<and> due t \<le> now s1 \<and> timers s2 = ts \<and>
           chatWindow_children s2 = chatWindow_children s1 @ [aiMessageDiv (captured t)])"
    using step_TimerTask_Some by blast
  have 5: "timers s = [] \<longrightarrow>
        (\<forall>d<1000. run L [Elapse d, TimerTask] (sendMessage L s) = None) \<and>
        (\<forall>d\<ge>1000. \<exists>s2. run L [Elapse d, TimerTask] (sendMessage L s) = Some s2 \<and>
           chatWindow_children s2 = chatWindow_children s @ [userMessageDiv S, aiMessageDiv S] \<and>
           timers s2 = [])"
    using assms by (simp add: sendMessage_eq [OF ne] timeout_callback_eq)
  have 6: \<open>innerHTML (userMessageDiv S) = js ''<span class="message-text">'' @ S @ js ''</span>''\<close>
    by (simp add: userMessageDiv_def)
  have 7: \<open>innerHTML (aiMessageDiv S) =
       js ''<span class="message-text">This is a simulated AI response to "'' @ S @ js ''".</span>''\<close>
    by (simp add: aiMessageDiv_def)
  have 8: "(\<forall>c\<in>set S. plain_char c) \<longrightarrow>
        textContent (userMessageDiv S) = Some S \<and>
        textContent (aiMessageDiv S) = Some (response_text S)"
    by (simp add: textContent_userMessageDiv textContent_aiMessageDiv)
  from 1 2 3 4 5 6 7 8 show ?thesis by (simp only: is_user_simps simp_thms)
qed

theorem submit_appends_user_then_assistant_witness:
  \<open>trim (userInput_value hello_page) = js ''hello'' \<and> js ''hello'' \<noteq> [] \<and>
   chatWindow_children (sendMessage example_layout hello_page) = [userMessageDiv (js ''hello'')] \<and>
   timers (sendMessage example_layout hello_page) = [\<lparr>due = 1000, captured = js ''hello''\<rparr>] \<and>
   run example_layout [Elapse 999, TimerTask] (sendMessage example_layout hello_page) = None \<and>
   (\<exists>s2. run example_layout [Elapse 1000, TimerTask] (sendMessage example_layout hello_page) = Some s2 \<and>
      chatWindow_children s2 = [userMessageDiv (js ''hello''), aiMessageDiv (js ''hello'')] \<and>
      timers s2 = []) \<and>
   textContent (userMessageDiv (js ''hello'')) = Some (js ''hello'') \<and>
   textContent (aiMessageDiv (js ''hello'')) = Some (js ''This is a simulated AI response to "hello".'')\<close>
proof -
  have h1: "trim (userInput_value hello_page) = js ''hello''"
    by (simp add: hello_page_def trim_def js_def isWhiteSpace_def)
  have h2: "js ''hello'' \<noteq> []" by (simp add: js_def)
  have e: "timers hello_page = []" "chatWindow_children hello_page = []" "now hello_page = 0"
    by (simp_all add: hello_page_def empty_page_def)
  have p: "\<forall>c\<in>set (js ''hello''). plain_char c" by (simp add: js_def plain_char_def)
  have r: \<open>response_text (js ''hello'') = js ''This is a simulated AI response to "hello".''\<close>
    by (simp add: response_text_def js_def)
  note T = submit_appends_user_then_assistant [OF h1 h2, of example_layout]
  from T e have a: "chatWindow_children (sendMessage example_layout hello_page) = [userMessageDiv (js ''hello'')]"
    by simp
  from T e have b: "timers (sendMessage example_layout hello_page) = [\<lparr>due = 1000, captured = js ''hello''\<rparr>]"
    by simp
  from T e have c: "\<forall>d<1000. run example_layout [Elapse d, TimerTask] (sendMessage example_layout hello_page) = None"
    by blast
  then have c': "run example_layout [Elapse 999, TimerTask] (sendMessage example_layout hello_page) = None"
    by simp
  from T e have d: "\<forall>d\<ge>1000. \<exists>s2. run example_layout [Elapse d, TimerTask] (sendMessage example_layout hello_page) = Some s2 \<and>
      chatWindow_children s2 = chatWindow_children hello_page @ [userMessageDiv (js ''hello''), aiMessageDiv (js ''hello'')] \<and>
      timers s2 = []"
    by blast
  then have d': "\<exists>s2. run example_layout [Elapse 1000, TimerTask] (sendMessage example_layout hello_page) = Some s2 \<and>
      chatWindow_children s2 = [userMessageDiv (js ''hello''), aiMessageDiv (js ''hello'')] \<and>
      timers s2 = []"
    using e by simp
  from T p r have t: "textContent (userMessageDiv (js ''hello'')) = Some (js ''hello'') \<and>
   textContent (aiMessageDiv (js ''hello'')) = Some (js ''This is a simulated AI response to \"hello\".'')"
    by simp
  from h1 h2 a b c' d' t show ?thesis by blast
qed

text \<open>
  The claim as first stated says that the message shows \<open>S\<close> for every \<open>S\<close>. For the input
  \<^verbatim>\<open><i>hi</i>\<close> the appended user message shows \<^verbatim>\<open>hi\<close>, and its reply shows the template
  around \<^verbatim>\<open>hi\<close>: the markup of the input is parsed, not shown.
\<close>

theorem message_text_counterexample:
  \<open>trim (userInput_value markup_page) = js ''<i>hi</i>'' \<and>
   chatWindow_children (sendMessage example_layout markup_page) = [userMessageDiv (js ''<i>hi</i>'')] \<and>
   textContent (userMessageDiv (js ''<i>hi</i>'')) = Some (js ''hi'') \<and>
   textContent (aiMessageDiv (js ''<i>hi</i>'')) = Some (js ''This is a simulated AI response to "hi".'') \<and>
   js ''hi'' \<noteq> js ''<i>hi</i>'' \<and>
   js ''This is a simulated AI response to "hi".'' \<noteq> js ''This is a simulated AI response to "<i>hi</i>".''\<close>
proof -
  have h: "trim (userInput_value markup_page) = js ''<i>hi</i>''"
    by (simp add: markup_page_def trim_def js_def isWhiteSpace_def)
  have ne: "trim (userInput_value markup_page) \<noteq> []"
    by (simp add: h) (simp add: js_def)
  have a: "chatWindow_children (sendMessage example_layout markup_page) = [userMessageDiv (js ''<i>hi</i>'')]"
    by (simp add: sendMessage_eq [OF ne] h) (simp add: markup_page_def empty_page_def)
  have b: "textContent (userMessageDiv (js ''<i>hi</i>'')) = Some (js ''hi'')"
    by (simp add: textContent_def userMessageDiv_def span_open)
      (simp add: js_def lower_alpha_def html_space_def phrasing_tag_def plain_char_def)
  have c: \<open>textContent (aiMessageDiv (js ''<i>hi</i>'')) = Some (js ''This is a simulated AI response to "hi".'')\<close>
    by (simp add: textContent_def aiMessageDiv_innerHTML span_open)
      (simp add: response_text_def js_def lower_alpha_def html_space_def phrasing_tag_def plain_char_def)
  have d: \<open>js ''hi'' \<noteq> js ''<i>hi</i>''\<close> 
    \<open>js ''This is a simulated AI response to "hi".'' \<noteq> js ''This is a simulated AI response to "<i>hi</i>".''\<close>
    by (simp_all add: js_def)
  from h a b c d show ?thesis by blast
qed

section \<open>Markup in the input\<close>

text \<open>
  C9. There is a non-empty input, equal to its trimmed form, whose message does not show
  the submitted string: the input \<^verbatim>\<open><b>x</b>\<close> is placed unescaped in the markup assigned
  to \<^verbatim>\<open>innerHTML\<close>, and the text content of the message is \<^verbatim>\<open>x\<close>. The same holds for the
  reply built from it.
\<close>

theorem unescaped_markup_changes_text:
  \<open>\<exists>S. S \<noteq> [] \<and> trim S = S \<and>
     chatWindow_children (sendMessage L (s\<lparr>userInput_value := S\<rparr>))
       = chatWindow_children s @ [userMessageDiv S] \<and>
     innerHTML (userMessageDiv S) = js ''<span class="message-text">'' @ S @ js ''</span>'' \<and>
     (\<exists>t. textContent (userMessageDiv S) = Some t \<and> t \<noteq> S) \<and>
     (\<exists>t. textContent (aiMessageDiv S) = Some t \<and> t \<noteq> response_text S)\<close>
proof -
  let ?S = "js ''<b>x</b>''"
  have ne: "?S \<noteq> []" by (simp add: js_def)
  have tr: "trim ?S = ?S" by (simp add: trim_def js_def isWhiteSpace_def)
  have a: "chatWindow_children (sendMessage L (s\<lparr>userInput_value := ?S\<rparr>))
       = chatWindow_children s @ [userMessageDiv ?S]"
    using ne tr by (simp add: sendMessage_eq)
  have b: \<open>innerHTML (userMessageDiv ?S) = js ''<span class="message-text">'' @ ?S @ js ''</span>''\<close>
    by (simp add: userMessageDiv_def)
  have "textContent (userMessageDiv ?S) = Some (js ''x'')"
    by (simp add: textContent_def userMessageDiv_def span_open)
      (simp add: js_def lower_alpha_def html_space_def phrasing_tag_def plain_char_def)
  moreover have "js ''x'' \<noteq> ?S" by (simp add: js_def)
  ultimately have c: "\<exists>t. textContent (userMessageDiv ?S) = Some t \<and> t \<noteq> ?S" by blast
  have "textContent (aiMessageDiv ?S) = Some (response_text (js ''x''))"
    by (simp add: textContent_def aiMessageDiv_innerHTML span_open)
      (simp add: response_text_def js_def lower_alpha_def html_space_def phrasing_tag_def plain_char_def)
  moreover have "response_text (js ''x'') \<noteq> response_text ?S"
    by (simp add: response_text_def js_def)
  ultimately have d: "\<exists>t. textContent (aiMessageDiv ?S) = Some t \<and> t \<noteq> response_text ?S" by blast
  from ne tr a b c d show ?thesis by blast
qed

section \<open>The two listeners\<close>

lemma busy_trim: "trim (userInput_value busy_page) = js ''hi''"
  by (simp add: busy_page_def trim_def js_def isWhiteSpace_def)

lemma busy_changes: "sendMessage example_layout busy_page \<noteq> busy_page"
proof
  assume "sendMessage example_layout busy_page = busy_page"
  then have "userInput_value (sendMessage example_layout busy_page) = userInput_value busy_page"
    by simp
  moreover have "trim (userInput_value busy_page) \<noteq> []" by (simp add: busy_trim) (simp add: js_def)
  ultimately have "userInput_value busy_page = []" by (simp add: sendMessage_eq)
  then show False by (simp add: busy_page_def js_def)
qed

text \<open>
  C4, amended. A \<^verbatim>\<open>click\<close> event on the send button and a \<^verbatim>\<open>keypress\<close> event on the input
  field whose key is \<^verbatim>\<open>Enter\<close> call \<^verbatim>\<open>sendMessage\<close>, which reads the value the field has at
  that moment: after an edit to \<open>v\<close>, either event appends the user message built from the
  trimmed \<open>v\<close>. A \<^verbatim>\<open>keypress\<close> with any other key, and an event of any other type on either
  element, changes nothing; an event that changes the page is one of those two.
\<close>

theorem listeners_invoke_sendMessage:
  "(event_type ev = js ''click'' \<longrightarrow> dispatchEvent L SendBtn ev s = sendMessage L s) \<and>
   (event_type ev = js ''keypress'' \<and> event_key ev = Some (js ''Enter'') \<longrightarrow>
      dispatchEvent L UserInput ev s = sendMessage L s) \<and>
   (event_type ev = js ''keypress'' \<and> event_key ev \<noteq> Some (js ''Enter'') \<longrightarrow>
      dispatchEvent L UserInput ev s = s) \<and>
   (event_type ev \<noteq> js ''keypress'' \<longrightarrow> dispatchEvent L UserInput ev s = s) \<and>
   (event_type ev \<noteq> js ''click'' \<longrightarrow> dispatchEvent L SendBtn ev s = s) \<and>
   (dispatchEvent L tgt ev s \<noteq> s \<longrightarrow>
      dispatchEvent L tgt ev s = sendMessage L s \<and>
      (tgt = SendBtn \<and> event_type ev = js ''click'' \<or>
       tgt = UserInput \<and> event_type ev = js ''keypress'' \<and> event_key ev = Some (js ''Enter''))) \<and>
   (trim v \<noteq> [] \<longrightarrow>
      (\<exists>s1. run L [Edit v, Dispatch SendBtn click] s = Some s1 \<and>
         chatWindow_children s1 = chatWindow_children s @ [userMessageDiv (trim v)]) \<and>
      (\<exists>s2. run L [Edit v, Dispatch UserInput Enter_keypress] s = Some s2 \<and>
         chatWindow_children s2 = chatWindow_children s @ [userMessageDiv (trim v)]))"
proof -
  have a: "(event_type ev = js ''click'' \<longrightarrow> dispatchEvent L SendBtn ev s = sendMessage L s) \<and>
   (event_type ev = js ''keypress'' \<and> event_key ev = Some (js ''Enter'') \<longrightarrow>
      dispatchEvent L UserInput ev s = sendMessage L s) \<and>
   (event_type ev = js ''keypress'' \<and> event_key ev \<noteq> Some (js ''Enter'') \<longrightarrow>
      dispatchEvent L UserInput ev s = s) \<and>
   (event_type ev \<noteq> js ''keypress'' \<longrightarrow> dispatchEvent L UserInput ev s = s) \<and>
   (event_type ev \<noteq> js ''click'' \<longrightarrow> dispatchEvent L SendBtn ev s = s)"
    by (simp add: dispatchEvent_def click_listener_def keypress_listener_def)
  have b: "dispatchEvent L tgt ev s \<noteq> s \<longrightarrow>
      dispatchEvent L tgt ev s = sendMessage L s \<and>
      (tgt = SendBtn \<and> event_type ev = js ''click'' \<or>
       tgt = UserInput \<and> event_type ev = js ''keypress'' \<and> event_key ev = Some (js ''Enter''))"
    using dispatchEvent_cases [of L tgt ev s] dispatchEvent_changes [of L tgt ev s] by blast
  have c: "trim v \<noteq> [] \<longrightarrow>
      (\<exists>s1. run L [Edit v, Dispatch SendBtn click] s = Some s1 \<and>
         chatWindow_children s1 = chatWindow_children s @ [userMessageDiv (trim v)]) \<and>
      (\<exists>s2. run L [Edit v, Dispatch UserInput Enter_keypress] s = Some s2 \<and>
         chatWindow_children s2 = chatWindow_children s @ [userMessageDiv (trim v)])"
    by (simp add: dispatch_click Enter_keypress_def dispatch_keypress_Enter sendMessage_eq)
  from a b c show ?thesis by blast
qed

theorem listeners_invoke_sendMessage_witness:
  "dispatchEvent example_layout SendBtn click busy_page = sendMessage example_layout busy_page \<and>
   dispatchEvent example_layout UserInput Enter_keypress busy_page = sendMessage example_layout busy_page \<and>
   dispatchEvent example_layout UserInput (keyboard_event ''keypress'' (js ''a'')) busy_page = busy_page \<and>
   dispatchEvent example_layout UserInput (keyboard_event ''keyup'' (js ''Enter'')) busy_page = busy_page \<and>
   dispatchEvent example_layout SendBtn (keyboard_event ''keypress'' (js ''Enter'')) busy_page = busy_page \<and>
   sendMessage example_layout busy_page \<noteq> busy_page \<and>
   (\<exists>s1. run example_layout [Edit (js ''ok''), Dispatch SendBtn click] empty_page = Some s1 \<and>
      chatWindow_children s1 = [userMessageDiv (js ''ok'')])"
proof -
  have k: "event_type click = js ''click''"
    "event_type Enter_keypress = js ''keypress''" "event_key Enter_keypress = Some (js ''Enter'')"
    by (simp_all add: click_def Enter_keypress_def keyboard_event_def)
  have n: "event_key (keyboard_event ''keypress'' (js ''a'')) \<noteq> Some (js ''Enter'')"
    "event_type (keyboard_event ''keypress'' (js ''a'')) = js ''keypress''"
    "event_type (keyboard_event ''keyup'' (js ''Enter'')) \<noteq> js ''keypress''"
    "event_type (keyboard_event ''keypress'' (js ''Enter'')) \<noteq> js ''click''"
    by (simp_all add: keyboard_event_def js_def)
  have t: "trim (js ''ok'') = js ''ok''" "js ''ok'' \<noteq> []" "chatWindow_children empty_page = []"
    by (simp_all add: trim_def js_def isWhiteSpace_def empty_page_def)
  have a: "dispatchEvent example_layout SendBtn click busy_page = sendMessage example_layout busy_page"
    using listeners_invoke_sendMessage [of click example_layout busy_page] k by blast
  have b: "dispatchEvent example_layout UserInput Enter_keypress busy_page = sendMessage example_layout busy_page"
    using listeners_invoke_sendMessage [of Enter_keypress example_layout busy_page] k by blast
  have c: "dispatchEvent example_layout UserInput (keyboard_event ''keypress'' (js ''a'')) busy_page = busy_page"
    using listeners_invoke_sendMessage [of "keyboard_event ''keypress'' (js ''a'')" example_layout busy_page] n
    by blast
  have d: "dispatchEvent example_layout UserInput (keyboard_event ''keyup'' (js ''Enter'')) busy_page = busy_page"
    using listeners_invoke_sendMessage [of "keyboard_event ''keyup'' (js ''Enter'')" example_layout busy_page] n
    by blast
  have e: "dispatchEvent example_layout SendBtn (keyboard_event ''keypress'' (js ''Enter'')) busy_page = busy_page"
    using listeners_invoke_sendMessage [of "keyboard_event ''keypress'' (js ''Enter'')" example_layout busy_page] n
    by blast
  from listeners_invoke_sendMessage [of click example_layout empty_page SendBtn "js ''ok''"] t
  have f: "\<exists>s1. run example_layout [Edit (js ''ok''), Dispatch SendBtn click] empty_page = Some s1 \<and>
      chatWindow_children s1 = [userMessageDiv (js ''ok'')]"
    by simp
  from a b c d e f busy_changes show ?thesis by blast
qed

text \<open>
  The claim as first stated names the key-down event. The script listens for \<^verbatim>\<open>keypress\<close>
  only: a \<^verbatim>\<open>keydown\<close> event with key \<^verbatim>\<open>Enter\<close> on the input field leaves the page as it is,
  where \<^verbatim>\<open>sendMessage\<close> would have changed it.
\<close>

theorem keydown_Enter_counterexample:
  "dispatchEvent example_layout UserInput (keyboard_event ''keydown'' (js ''Enter'')) busy_page = busy_page \<and>
   sendMessage example_layout busy_page \<noteq> busy_page"
proof -
  have "js ''keydown'' \<noteq> js ''keypress''" by (simp add: js_def)
  then have "dispatchEvent example_layout UserInput (keyboard_event ''keydown'' (js ''Enter'')) busy_page = busy_page"
    by (simp add: dispatchEvent_def keyboard_event_def)
  with busy_changes show ?thesis by blast
qed

section \<open>The panel only grows\<close>

lemmas exec_defs = dispatchEvent_def click_listener_def keypress_listener_def click_def
  Enter_keypress_def keyboard_event_def sendMessage_def timeout_callback_def Let_def
  appendChild_def set_scrollTop_def setTimeout_def scrollHeight_def maxScrollTop_def
  trim_def isWhiteSpace_def js_def

lemma sendMessage_children_prefix:
  "prefix (chatWindow_children s) (chatWindow_children (sendMessage L s))"
  by (cases "trim (userInput_value s) = []") (simp_all add: sendMessage_noop sendMessage_eq)

lemma timeout_callback_children_prefix:
  "prefix (chatWindow_children s) (chatWindow_children (timeout_callback L t s))"
  by (simp add: timeout_callback_eq)

lemma step_children_prefix:
  "step L t s = Some s' \<Longrightarrow> prefix (chatWindow_children s) (chatWindow_children s')"
proof (cases t)
  case (Dispatch tgt ev)
  assume "step L t s = Some s'"
  with Dispatch have "s' = dispatchEvent L tgt ev s" by simp
  with dispatchEvent_cases [of L tgt ev s] show ?thesis
    by (auto simp: sendMessage_children_prefix)
next
  case TimerTask
  assume a: "step L t s = Some s'"
  from step_TimerTask_Some [OF a [unfolded TimerTask]]
  obtain u :: timer where "chatWindow_children s' = chatWindow_children s @ [aiMessageDiv (captured u)]"
    by blast
  then show ?thesis by simp
qed (auto simp: set_scrollTop_def)

lemma run_children_prefix:
  "run L ts s = Some s' \<Longrightarrow> prefix (chatWindow_children s) (chatWindow_children s')"
proof (induction ts arbitrary: s)
  case Nil
  then show ?case by simp
next
  case (Cons t ts)
  then obtain s1 where 1: "step L t s = Some s1" and 2: "run L ts s1 = Some s'"
    by (auto split: option.splits)
  from 1 have "prefix (chatWindow_children s) (chatWindow_children s1)"
    by (rule step_children_prefix)
  moreover from 2 have "prefix (chatWindow_children s1) (chatWindow_children s')"
    by (rule Cons.IH)
  ultimately show ?case by (rule prefix_order.trans)
qed

text \<open>
  C5. Whatever tasks the event loop runs (events that call \<^verbatim>\<open>sendMessage\<close> or not, timer
  callbacks, edits, scrolling, time passing), the children the panel had before are still
  there afterwards, unchanged and at the same positions, and new children come after them.
  The same holds for a single call of \<^verbatim>\<open>sendMessage\<close> and of a timer callback.
\<close>

theorem panel_append_only:
  "run L ts s = Some s' \<Longrightarrow>
     prefix (chatWindow_children s) (chatWindow_children s') \<and>
     (\<forall>i<length (chatWindow_children s). chatWindow_children s' ! i = chatWindow_children s ! i) \<and>
     prefix (chatWindow_children s) (chatWindow_children (sendMessage L s)) \<and>
     prefix (chatWindow_children s) (chatWindow_children (timeout_callback L t s))"
proof -
  assume "run L ts s = Some s'"
  then have p: "prefix (chatWindow_children s) (chatWindow_children s')"
    by (rule run_children_prefix)
  then have "\<forall>i<length (chatWindow_children s). chatWindow_children s' ! i = chatWindow_children s ! i"
    by (auto simp: prefix_def nth_append)
  with p show ?thesis
    by (simp add: sendMessage_children_prefix timeout_callback_children_prefix)
qed

lemma busy_run:
  "\<exists>s'. run example_layout session busy_page = Some s' \<and>
     chatWindow_children s' = chatWindow_children busy_page @
       [userMessageDiv (js ''hi''), aiMessageDiv (js ''b''), userMessageDiv (js ''x''),
        aiMessageDiv (js ''hi''), aiMessageDiv (js ''x'')]"
  by (simp add: session_def busy_page_def exec_defs)

theorem panel_append_only_witness:
  "\<exists>s'. run example_layout session busy_page = Some s' \<and>
     chatWindow_children s' = chatWindow_children busy_page @
       [userMessageDiv (js ''hi''), aiMessageDiv (js ''b''), userMessageDiv (js ''x''),
        aiMessageDiv (js ''hi''), aiMessageDiv (js ''x'')] \<and>
     prefix (chatWindow_children busy_page) (chatWindow_children s') \<and>
     chatWindow_children s' ! 1 = aiMessageDiv (js ''a'')"
proof -
  from busy_run obtain s' where r: "run example_layout session busy_page = Some s'"
    and c: "chatWindow_children s' = chatWindow_children busy_page @
       [userMessageDiv (js ''hi''), aiMessageDiv (js ''b''), userMessageDiv (js ''x''),
        aiMessageDiv (js ''hi''), aiMessageDiv (js ''x'')]"
    by blast
  note T = panel_append_only [OF r]
  from T have p: "prefix (chatWindow_children busy_page) (chatWindow_children s')" by blast
  from T have "\<forall>i<length (chatWindow_children busy_page). chatWindow_children s' ! i = chatWindow_children busy_page ! i"
    by blast
  then have "chatWindow_children s' ! 1 = chatWindow_children busy_page ! 1"
    by (simp add: busy_page_def)
  then have n: "chatWindow_children s' ! 1 = aiMessageDiv (js ''a'')"
    by (simp add: busy_page_def)
  from r c p n show ?thesis by blast
qed

section \<open>Replies never outnumber user messages\<close>

lemma step_counts:
  "step L t s = Some s' \<Longrightarrow>
     assistant_count s' + length (timers s') + user_count s
       = user_count s' + assistant_count s + length (timers s)"
proof (cases t)
  case (Dispatch tgt ev)
  assume "step L t s = Some s'"
  with Dispatch have "s' = dispatchEvent L tgt ev s" by simp
  with dispatchEvent_cases [of L tgt ev s] have "s' = s \<or> s' = sendMessage L s" by simp
  then show ?thesis
    by (cases "trim (userInput_value s) = []")
      (auto simp: sendMessage_noop sendMessage_eq user_count_def assistant_count_def)
next
  case TimerTask
  assume a: "step L t s = Some s'"
  from step_TimerTask_Some [OF a [unfolded TimerTask]]
  obtain u :: timer and us where "timers s = u # us" "timers s' = us"
    "chatWindow_children s' = chatWindow_children s @ [aiMessageDiv (captured u)]"
    by blast
  then show ?thesis by (simp add: user_count_def assistant_count_def)
qed (auto simp: set_scrollTop_def user_count_def assistant_count_def)

lemma run_counts:
  "run L ts s = Some s' \<Longrightarrow>
     assistant_count s' + length (timers s') + user_count s
       = user_count s' + assistant_count s + length (timers s)"
proof (induction ts arbitrary: s)
  case Nil
  then show ?case by simp
next
  case (Cons t ts)
  then obtain s1 where 1: "step L t s = Some s1" and 2: "run L ts s1 = Some s'"
    by (auto split: option.splits)
  from step_counts [OF 1] Cons.IH [OF 2] show ?case by arith
qed

text \<open>
  C8. Start from a page with no pending timer whose panel has no more assistant messages
  than user messages (an empty panel, for one). Then in every state the event loop can
  reach, the assistant messages are no more than the user messages: each user message
  appended since the start has either its reply in the panel or its timer still pending.
\<close>

theorem assistant_count_le_user_count:
  "run L ts s0 = Some s \<Longrightarrow> timers s0 = [] \<Longrightarrow> assistant_count s0 \<le> user_count s0 \<Longrightarrow>
     assistant_count s \<le> user_count s \<and>
     assistant_count s + length (timers s) + user_count s0 = user_count s + assistant_count s0"
proof -
  assume r: "run L ts s0 = Some s" and t: "timers s0 = []"
    and i: "assistant_count s0 \<le> user_count s0"
  from run_counts [OF r] t
  have e: "assistant_count s + length (timers s) + user_count s0 = user_count s + assistant_count s0"
    by simp
  with i show ?thesis by arith
qed

lemma hello_run:
  "\<exists>s. run example_layout half_session hello_page = Some s \<and>
     chatWindow_children s = [userMessageDiv (js ''hello''), userMessageDiv (js ''x''), aiMessageDiv (js ''hello'')] \<and>
     timers s = [\<lparr>due = 1000, captured = js ''x''\<rparr>]"
  by (simp add: half_session_def hello_page_def empty_page_def exec_defs)

theorem assistant_count_le_user_count_witness:
  "timers hello_page = [] \<and> assistant_count hello_page \<le> user_count hello_page \<and>
   (\<exists>s. run example_layout half_session hello_page = Some s \<and>
      assistant_count s = 1 \<and> user_count s = 2 \<and> length (timers s) = 1 \<and>
      assistant_count s \<le> user_count s)"
proof -
  have t: "timers hello_page = []" by (simp add: hello_page_def empty_page_def)
  have i: "assistant_count hello_page \<le> user_count hello_page"
    by (simp add: hello_page_def empty_page_def assistant_count_def user_count_def)
  from hello_run obtain s where r: "run example_layout half_session hello_page = Some s"
    and c: "chatWindow_children s = [userMessageDiv (js ''hello''), userMessageDiv (js ''x''), aiMessageDiv (js ''hello'')]"
    and q: "timers s = [\<lparr>due = 1000, captured = js ''x''\<rparr>]"
    by blast
  from assistant_count_le_user_count [OF r t i] have le: "assistant_count s \<le> user_count s"
    by blast
  from c have n: "assistant_count s = 1" "user_count s = 2"
    by (simp_all add: assistant_count_def user_count_def)
  from q have m: "length (timers s) = 1" by simp
  from t i r n m le show ?thesis by blast
qed

section \<open>Several submissions\<close>

lemma submit_after_edit:
  assumes "trim v = S" and "S \<noteq> []"
  shows "sendMessage L (s\<lparr>userInput_value := v\<rparr>) =
     s\<lparr>userInput_value := [],
       chatWindow_children := chatWindow_children s @ [userMessageDiv S],
       chatWindow_scrollTop :=
         max (contentHeight L (chatWindow_children s @ [userMessageDiv S])) (clientHeight L)
           - clientHeight L,
       timers := timers s @ [\<lparr>due = now s + 1000, captured = S\<rparr>]\<rparr>"
  using assms by (simp add: sendMessage_eq)

text \<open>
  C3. Two submissions with trimmed texts \<open>a\<close> and \<open>b\<close>, the second made before any timer has
  run (whatever time \<open>d\<close> passes between them), starting with no timer pending: the panel
  gains a child of class \<^verbatim>\<open>message user-message\<close> whose markup is the \<^verbatim>\<open>span\<close> template around
  \<open>a\<close>, then one whose markup is the template around \<open>b\<close>, and two timers are pending, the
  first holding \<open>a\<close>, the second \<open>b\<close>. Once the timers are due, the first to run appends a
  child of class \<^verbatim>\<open>message ai-message\<close> whose markup is the reply template around \<open>a\<close>, and
  the second one whose markup is the reply template around \<open>b\<close>: the second submission
  did not change what the first timer captured. When \<open>a\<close> and \<open>b\<close> contain none of \<^verbatim>\<open><\<close>,
  \<^verbatim>\<open>&\<close>, NUL and CR, the four new messages show \<open>a\<close>, \<open>b\<close>, the reply text for \<open>a\<close> and the
  reply text for \<open>b\<close>.
\<close>

theorem two_pending_submissions:
  assumes "trim va = a" and "a \<noteq> []" and "trim vb = b" and "b \<noteq> []" and "timers s = []"
  shows \<open>\<exists>s2. run L [Edit va, Dispatch SendBtn click, Elapse d, Edit vb,
                    Dispatch UserInput Enter_keypress] s = Some s2 \<and>
           chatWindow_children s2 = chatWindow_children s @
             [\<lparr>className = js ''message user-message'',
               innerHTML = js ''<span class="message-text">'' @ a @ js ''</span>''\<rparr>,
              \<lparr>className = js ''message user-message'',
               innerHTML = js ''<span class="message-text">'' @ b @ js ''</span>''\<rparr>] \<and>
           timers s2 = [\<lparr>due = now s + 1000, captured = a\<rparr>,
                        \<lparr>due = now s + d + 1000, captured = b\<rparr>] \<and>
           (\<forall>e\<ge>1000. \<exists>s3 s4.
              run L [Elapse e, TimerTask] s2 = Some s3 \<and>
              chatWindow_children s3 = chatWindow_children s2 @
                [\<lparr>className = js ''message ai-message'',
                  innerHTML = js ''<span class="message-text">This is a simulated AI response to "''
                              @ a @ js ''".</span>''\<rparr>] \<and>
              timers s3 = [\<lparr>due = now s + d + 1000, captured = b\<rparr>] \<and>
              step L TimerTask s3 = Some s4 \<and>
              chatWindow_children s4 = chatWindow_children s3 @
                [\<lparr>className = js ''message ai-message'',
                  innerHTML = js ''<span class="message-text">This is a simulated AI response to "''
                              @ b @ js ''".</span>''\<rparr>] \<and>
              timers s4 = [] \<and>
              ((\<forall>c\<in>set a. plain_char c) \<and> (\<forall>c\<in>set b. plain_char c) \<longrightarrow>
                 map textContent (drop (length (chatWindow_children s)) (chatWindow_children s4)) =
                   [Some a, Some b,
                    Some (js ''This is a simulated AI response to "'' @ a @ js ''".''),
                    Some (js ''This is a simulated AI response to "'' @ b @ js ''".'')]))\<close>
proof -
  have m: "\<exists>s2. run L [Edit va, Dispatch SendBtn click, Elapse d, Edit vb,
                    Dispatch UserInput Enter_keypress] s = Some s2 \<and>
           chatWindow_children s2 = chatWindow_children s @ [userMessageDiv a, userMessageDiv b] \<and>
           timers s2 = [\<lparr>due = now s + 1000, captured = a\<rparr>,
                        \<lparr>due = now s + d + 1000, captured = b\<rparr>] \<and>
           (\<forall>e\<ge>1000. \<exists>s3 s4.
              run L [Elapse e, TimerTask] s2 = Some s3 \<and>
              chatWindow_children s3 = chatWindow_children s2 @ [aiMessageDiv a] \<and>
              timers s3 = [\<lparr>due = now s + d + 1000, captured = b\<rparr>] \<and>
              step L TimerTask s3 = Some s4 \<and>
              chatWindow_children s4 = chatWindow_children s3 @ [aiMessageDiv b] \<and>
              timers s4 = [] \<and>
              ((\<forall>c\<in>set a. plain_char c) \<and> (\<forall>c\<in>set b. plain_char c) \<longrightarrow>
                 map textContent (drop (length (chatWindow_children s)) (chatWindow_children s4)) =
                   [Some a, Some b, Some (response_text a), Some (response_text b)]))"
    using assms
    by (simp add: dispatch_click Enter_keypress_def dispatch_keypress_Enter submit_after_edit
        timeout_callback_eq textContent_userMessageDiv textContent_aiMessageDiv)
  then show ?thesis
    by (simp only: userMessageDiv_def aiMessageDiv_def response_text_def)
qed


theorem two_pending_submissions_witness:
  \<open>trim (js ''a'') = js ''a'' \<and> js ''a'' \<noteq> [] \<and> trim (js ''b'') = js ''b'' \<and> js ''b'' \<noteq> [] \<and>
   timers empty_page = [] \<and>
   (\<exists>s2. run example_layout [Edit (js ''a''), Dispatch SendBtn click, Elapse 200, Edit (js ''b''),
                    Dispatch UserInput Enter_keypress] empty_page = Some s2 \<and>
      chatWindow_children s2 =
        [\<lparr>className = js ''message user-message'',
          innerHTML = js ''<span class="message-text">a</span>''\<rparr>,
         \<lparr>className = js ''message user-message'',
          innerHTML = js ''<span class="message-text">b</span>''\<rparr>] \<and>
      map textContent (chatWindow_children s2) = [Some (js ''a''), Some (js ''b'')] \<and>
      timers s2 = [\<lparr>due = 1000, captured = js ''a''\<rparr>, \<lparr>due = 1200, captured = js ''b''\<rparr>] \<and>
      (\<exists>s3 s4. run example_layout [Elapse 1000, TimerTask] s2 = Some s3 \<and>
         chatWindow_children s3 = chatWindow_children s2 @
           [\<lparr>className = js ''message ai-message'',
             innerHTML = js ''<span class="message-text">This is a simulated AI response to "a".</span>''\<rparr>] \<and>
         step example_layout TimerTask s3 = Some s4 \<and>
         chatWindow_children s4 = chatWindow_children s3 @
           [\<lparr>className = js ''message ai-message'',
             innerHTML = js ''<span class="message-text">This is a simulated AI response to "b".</span>''\<rparr>] \<and>
         map textContent (chatWindow_children s4) =
           [Some (js ''a''), Some (js ''b''),
            Some (js ''This is a simulated AI response to "a".''),
            Some (js ''This is a simulated AI response to "b".'')]))\<close>
proof -
  have a: "trim (js ''a'') = js ''a''" "js ''a'' \<noteq> []"
    by (simp_all add: trim_def js_def isWhiteSpace_def)
  have b: "trim (js ''b'') = js ''b''" "js ''b'' \<noteq> []"
    by (simp_all add: trim_def js_def isWhiteSpace_def)
  have e: "timers empty_page = []" "chatWindow_children empty_page = []" "now empty_page = 0"
    by (simp_all add: empty_page_def)
  have p: "(\<forall>c\<in>set (js ''a''). plain_char c) \<and> (\<forall>c\<in>set (js ''b''). plain_char c)"
    by (simp add: js_def plain_char_def)
  have u: \<open>userMessageDiv (js ''a'') = \<lparr>className = js ''message user-message'',
          innerHTML = js ''<span class="message-text">a</span>''\<rparr>\<close>
    \<open>userMessageDiv (js ''b'') = \<lparr>className = js ''message user-message'',
          innerHTML = js ''<span class="message-text">b</span>''\<rparr>\<close>
    by (simp_all add: userMessageDiv_def js_def)
  have v: \<open>aiMessageDiv (js ''a'') = \<lparr>className = js ''message ai-message'',
             innerHTML = js ''<span class="message-text">This is a simulated AI response to "a".</span>''\<rparr>\<close>
    \<open>aiMessageDiv (js ''b'') = \<lparr>className = js ''message ai-message'',
             innerHTML = js ''<span class="message-text">This is a simulated AI response to "b".</span>''\<rparr>\<close>
    by (simp_all add: aiMessageDiv_def js_def)
  have w: \<open>response_text (js ''a'') = js ''This is a simulated AI response to "a".''\<close>
    \<open>response_text (js ''b'') = js ''This is a simulated AI response to "b".''\<close>
    by (simp_all add: response_text_def js_def)
  note T = two_pending_submissions [OF a b e(1), of example_layout 200,
      folded userMessageDiv_def aiMessageDiv_def response_text_def]
  from T obtain s2 where
    r: "run example_layout [Edit (js ''a''), Dispatch SendBtn click, Elapse 200, Edit (js ''b''),
          Dispatch UserInput Enter_keypress] empty_page = Some s2"
    and c: "chatWindow_children s2 = chatWindow_children empty_page @
              [userMessageDiv (js ''a''), userMessageDiv (js ''b'')]"
    and q: "timers s2 = [\<lparr>due = now empty_page + 1000, captured = js ''a''\<rparr>,
                        \<lparr>due = now empty_page + 200 + 1000, captured = js ''b''\<rparr>]"
    and f: "\<forall>e\<ge>1000. \<exists>s3 s4.
              run example_layout [Elapse e, TimerTask] s2 = Some s3 \<and>
              chatWindow_children s3 = chatWindow_children s2 @ [aiMessageDiv (js ''a'')] \<and>
              timers s3 = [\<lparr>due = now empty_page + 200 + 1000, captured = js ''b''\<rparr>] \<and>
              step example_layout TimerTask s3 = Some s4 \<and>
              chatWindow_children s4 = chatWindow_children s3 @ [aiMessageDiv (js ''b'')] \<and>
              timers s4 = [] \<and>
              ((\<forall>c\<in>set (js ''a''). plain_char c) \<and> (\<forall>c\<in>set (js ''b''). plain_char c) \<longrightarrow>
                 map textContent (drop (length (chatWindow_children empty_page)) (chatWindow_children s4)) =
                   [Some (js ''a''), Some (js ''b''),
                    Some (response_text (js ''a'')), Some (response_text (js ''b''))])"
    by (elim exE conjE)
  from f have "\<exists>s3 s4.
              run example_layout [Elapse 1000, TimerTask] s2 = Some s3 \<and>
              chatWindow_children s3 = chatWindow_children s2 @ [aiMessageDiv (js ''a'')] \<and>
              timers s3 = [\<lparr>due = now empty_page + 200 + 1000, captured = js ''b''\<rparr>] \<and>
              step example_layout TimerTask s3 = Some s4 \<and>
              chatWindow_children s4 = chatWindow_children s3 @ [aiMessageDiv (js ''b'')] \<and>
              timers s4 = [] \<and>
              ((\<forall>c\<in>set (js ''a''). plain_char c) \<and> (\<forall>c\<in>set (js ''b''). plain_char c) \<longrightarrow>
                 map textContent (drop (length (chatWindow_children empty_page)) (chatWindow_children s4)) =
                   [Some (js ''a''), Some (js ''b''),
                    Some (response_text (js ''a'')), Some (response_text (js ''b''))])"
    by simp
  then obtain s3 s4 where
    g1: "run example_layout [Elapse 1000, TimerTask] s2 = Some s3"
    and g2: "chatWindow_children s3 = chatWindow_children s2 @ [aiMessageDiv (js ''a'')]"
    and g3: "step example_layout TimerTask s3 = Some s4"
    and g4: "chatWindow_children s4 = chatWindow_children s3 @ [aiMessageDiv (js ''b'')]"
    and g5: "(\<forall>c\<in>set (js ''a''). plain_char c) \<and> (\<forall>c\<in>set (js ''b''). plain_char c) \<longrightarrow>
                 map textContent (drop (length (chatWindow_children empty_page)) (chatWindow_children s4)) =
                   [Some (js ''a''), Some (js ''b''),
                    Some (response_text (js ''a'')), Some (response_text (js ''b''))]"
    by (elim exE conjE)
  from c e have c': "chatWindow_children s2 = [userMessageDiv (js ''a''), userMessageDiv (js ''b'')]"
    by simp
  from q e have q': "timers s2 = [\<lparr>due = 1000, captured = js ''a''\<rparr>, \<lparr>due = 1200, captured = js ''b''\<rparr>]"
    by simp
  from g5 p e have t4: "map textContent (chatWindow_children s4) =
      [Some (js ''a''), Some (js ''b''), Some (response_text (js ''a'')), Some (response_text (js ''b''))]"
    by simp
  with g4 g2 have t2: "map textContent (chatWindow_children s2) = [Some (js ''a''), Some (js ''b'')]"
    by simp
  have inner: "\<exists>s3 s4. run example_layout [Elapse 1000, TimerTask] s2 = Some s3 \<and>
         chatWindow_children s3 = chatWindow_children s2 @ [aiMessageDiv (js ''a'')] \<and>
         step example_layout TimerTask s3 = Some s4 \<and>
         chatWindow_children s4 = chatWindow_children s3 @ [aiMessageDiv (js ''b'')] \<and>
         map textContent (chatWindow_children s4) =
           [Some (js ''a''), Some (js ''b''), Some (response_text (js ''a'')),
            Some (response_text (js ''b''))]"
  proof (intro exI conjI)
    show "run example_layout [Elapse 1000, TimerTask] s2 = Some s3" by (rule g1)
    show "chatWindow_children s3 = chatWindow_children s2 @ [aiMessageDiv (js ''a'')]" by (rule g2)
    show "step example_layout TimerTask s3 = Some s4" by (rule g3)
    show "chatWindow_children s4 = chatWindow_children s3 @ [aiMessageDiv (js ''b'')]" by (rule g4)
    show "map textContent (chatWindow_children s4) =
           [Some (js ''a''), Some (js ''b''), Some (response_text (js ''a'')),
            Some (response_text (js ''b''))]" by (rule t4)
  qed
  have "trim (js ''a'') = js ''a'' \<and> js ''a'' \<noteq> [] \<and> trim (js ''b'') = js ''b'' \<and> js ''b'' \<noteq> [] \<and>
   timers empty_page = [] \<and>
   (\<exists>s2. run example_layout [Edit (js ''a''), Dispatch SendBtn click, Elapse 200, Edit (js ''b''),
                    Dispatch UserInput Enter_keypress] empty_page = Some s2 \<and>
      chatWindow_children s2 = [userMessageDiv (js ''a''), userMessageDiv (js ''b'')] \<and>
      map textContent (chatWindow_children s2) = [Some (js ''a''), Some (js ''b'')] \<and>
      timers s2 = [\<lparr>due = 1000, captured = js ''a''\<rparr>, \<lparr>due = 1200, captured = js ''b''\<rparr>] \<and>
      (\<exists>s3 s4. run example_layout [Elapse 1000, TimerTask] s2 = Some s3 \<and>
         chatWindow_children s3 = chatWindow_children s2 @ [aiMessageDiv (js ''a'')] \<and>
         step example_layout TimerTask s3 = Some s4 \<and>
         chatWindow_children s4 = chatWindow_children s3 @ [aiMessageDiv (js ''b'')] \<and>
         map textContent (chatWindow_children s4) =
           [Some (js ''a''), Some (js ''b''), Some (response_text (js ''a'')),
            Some (response_text (js ''b''))]))"
  proof (intro conjI)
    show "\<exists>s2. run example_layout [Edit (js ''a''), Dispatch SendBtn click, Elapse 200, Edit (js ''b''),
                    Dispatch UserInput Enter_keypress] empty_page = Some s2 \<and>
      chatWindow_children s2 = [userMessageDiv (js ''a''), userMessageDiv (js ''b'')] \<and>
      map textContent (chatWindow_children s2) = [Some (js ''a''), Some (js ''b'')] \<and>
      timers s2 = [\<lparr>due = 1000, captured = js ''a''\<rparr>, \<lparr>due = 1200, captured = js ''b''\<rparr>] \<and>
      (\<exists>s3 s4. run example_layout [Elapse 1000, TimerTask] s2 = Some s3 \<and>
         chatWindow_children s3 = chatWindow_children s2 @ [aiMessageDiv (js ''a'')] \<and>
         step example_layout TimerTask s3 = Some s4 \<and>
         chatWindow_children s4 = chatWindow_children s3 @ [aiMessageDiv (js ''b'')] \<and>
         map textContent (chatWindow_children s4) =
           [Some (js ''a''), Some (js ''b''), Some (response_text (js ''a'')),
            Some (response_text (js ''b''))])"
    proof (rule exI [of _ s2], intro conjI)
      show "run example_layout [Edit (js ''a''), Dispatch SendBtn click, Elapse 200, Edit (js ''b''),
                    Dispatch UserInput Enter_keypress] empty_page = Some s2" by (rule r)
      show "chatWindow_children s2 = [userMessageDiv (js ''a''), userMessageDiv (js ''b'')]" by (rule c')
      show "map textContent (chatWindow_children s2) = [Some (js ''a''), Some (js ''b'')]" by (rule t2)
      show "timers s2 = [\<lparr>due = 1000, captured = js ''a''\<rparr>, \<lparr>due = 1200, captured = js ''b''\<rparr>]"
        by (rule q')
      show "\<exists>s3 s4. run example_layout [Elapse 1000, TimerTask] s2 = Some s3 \<and>
         chatWindow_children s3 = chatWindow_children s2 @ [aiMessageDiv (js ''a'')] \<and>
         step example_layout TimerTask s3 = Some s4 \<and>
         chatWindow_children s4 = chatWindow_children s3 @ [aiMessageDiv (js ''b'')] \<and>
         map textContent (chatWindow_children s4) =
           [Some (js ''a''), Some (js ''b''), Some (response_text (js ''a'')),
            Some (response_text (js ''b''))]" by (rule inner)
    qed
  qed (rule a b e(1))+
  from this [unfolded u v w] show ?thesis .
qed

text \<open>
  C7. The same text submitted twice gives four messages, two user messages and two
  replies, whether the second submission comes before the first reply or after it.
  Nothing is merged.
\<close>

theorem same_text_twice:
  assumes "trim v = S" and "S \<noteq> []" and "timers s = []"
  shows "(\<exists>s'. run L [Edit v, Dispatch SendBtn click, Edit v, Dispatch SendBtn click,
                     Elapse 1000, TimerTask, TimerTask] s = Some s' \<and>
            chatWindow_children s' = chatWindow_children s @
              [userMessageDiv S, userMessageDiv S, aiMessageDiv S, aiMessageDiv S] \<and>
            user_count s' = user_count s + 2 \<and> assistant_count s' = assistant_count s + 2 \<and>
            timers s' = []) \<and>
         (\<exists>s'. run L [Edit v, Dispatch SendBtn click, Elapse 1000, TimerTask,
                     Edit v, Dispatch SendBtn click, Elapse 1000, TimerTask] s = Some s' \<and>
            chatWindow_children s' = chatWindow_children s @
              [userMessageDiv S, aiMessageDiv S, userMessageDiv S, aiMessageDiv S] \<and>
            user_count s' = user_count s + 2 \<and> assistant_count s' = assistant_count s + 2 \<and>
            timers s' = [])"
  using assms
  by (simp add: dispatch_click submit_after_edit timeout_callback_eq
      user_count_def assistant_count_def)

theorem same_text_twice_witness:
  "trim (js '' hi  '') = js ''hi'' \<and> js ''hi'' \<noteq> [] \<and> timers empty_page = [] \<and>
   (\<exists>s'. run example_layout [Edit (js '' hi  ''), Dispatch SendBtn click, Edit (js '' hi  ''),
                     Dispatch SendBtn click, Elapse 1000, TimerTask, TimerTask] empty_page = Some s' \<and>
      chatWindow_children s' =
        [userMessageDiv (js ''hi''), userMessageDiv (js ''hi''),
         aiMessageDiv (js ''hi''), aiMessageDiv (js ''hi'')] \<and>
      length (chatWindow_children s') = 4) \<and>
   (\<exists>s'. run example_layout [Edit (js '' hi  ''), Dispatch SendBtn click, Elapse 1000, TimerTask,
                     Edit (js '' hi  ''), Dispatch SendBtn click, Elapse 1000, TimerTask] empty_page = Some s' \<and>
      chatWindow_children s' =
        [userMessageDiv (js ''hi''), aiMessageDiv (js ''hi''),
         userMessageDiv (js ''hi''), aiMessageDiv (js ''hi'')] \<and>
      length (chatWindow_children s') = 4)"
proof -
  have a: "trim (js '' hi  '') = js ''hi''" "js ''hi'' \<noteq> []"
    by (simp_all add: trim_def js_def isWhiteSpace_def)
  have e: "timers empty_page = []" "chatWindow_children empty_page = []"
    by (simp_all add: empty_page_def)
  note T = same_text_twice [OF a e(1), of example_layout]
  from T obtain s' where 1:
    "run example_layout [Edit (js '' hi  ''), Dispatch SendBtn click, Edit (js '' hi  ''),
        Dispatch SendBtn click, Elapse 1000, TimerTask, TimerTask] empty_page = Some s'"
    "chatWindow_children s' = chatWindow_children empty_page @
        [userMessageDiv (js ''hi''), userMessageDiv (js ''hi''),
         aiMessageDiv (js ''hi''), aiMessageDiv (js ''hi'')]"
    by blast
  from T obtain s'' where 2:
    "run example_layout [Edit (js '' hi  ''), Dispatch SendBtn click, Elapse 1000, TimerTask,
        Edit (js '' hi  ''), Dispatch SendBtn click, Elapse 1000, TimerTask] empty_page = Some s''"
    "chatWindow_children s'' = chatWindow_children empty_page @
        [userMessageDiv (js ''hi''), aiMessageDiv (js ''hi''),
         userMessageDiv (js ''hi''), aiMessageDiv (js ''hi'')]"
    by blast
  from 1(2) e have 3: "chatWindow_children s' =
        [userMessageDiv (js ''hi''), userMessageDiv (js ''hi''),
         aiMessageDiv (js ''hi''), aiMessageDiv (js ''hi'')]" by simp
  then have 4: "length (chatWindow_children s') = 4" by simp
  from 2(2) e have 5: "chatWindow_children s'' =
        [userMessageDiv (js ''hi''), aiMessageDiv (js ''hi''),
         userMessageDiv (js ''hi''), aiMessageDiv (js ''hi'')]" by simp
  then have 6: "length (chatWindow_children s'') = 4" by simp
  from a e(1) 1(1) 3 4 2(1) 5 6 show ?thesis by blast
qed

section \<open>Determinism\<close>

lemma run_submit_fire:
  assumes "trim (userInput_value s) = S" and "S \<noteq> []" and "timers s = []" and "1000 \<le> d"
  shows "\<exists>r. run L [Dispatch SendBtn click, Elapse d, TimerTask] s = Some r \<and>
           chatWindow_children r = chatWindow_children s @ [userMessageDiv S, aiMessageDiv S] \<and>
           userInput_value r = []"
  using assms by (simp add: dispatch_click sendMessage_eq timeout_callback_eq)

lemma run_submit_fire_blank:
  assumes "trim (userInput_value s) = []" and "timers s = []"
  shows "run L [Dispatch SendBtn click, Elapse d, TimerTask] s = None"
  using assms by (simp add: dispatch_click sendMessage_noop)

lemma run_submit_fire_result:
  assumes "run L [Dispatch SendBtn click, Elapse d, TimerTask] s = Some r" and "timers s = []"
  shows "chatWindow_children r = chatWindow_children s @
           [userMessageDiv (trim (userInput_value s)), aiMessageDiv (trim (userInput_value s))] \<and>
         userInput_value r = []"
proof (cases "trim (userInput_value s) = []")
  case True
  with assms run_submit_fire_blank show ?thesis by simp
next
  case False
  with assms show ?thesis
    by (auto simp: dispatch_click sendMessage_eq timeout_callback_eq split: if_splits)
qed

text \<open>
  C10. Take two pages with the same panel and the same value in the input field; they may
  differ in everything else: the clock, the scroll offset, the geometry of the panel, the
  time that passes before the timer runs. Then \<^verbatim>\<open>sendMessage\<close> leaves the same panel and the
  same field value in both, its timers capture the same text, a timer callback with the
  same captured text appends the same child, and whenever both runs of submit followed by
  its timer complete, the two panels and the two field values are equal. When the trimmed
  value is not empty and at least 1000 ms pass, both runs do complete.
\<close>

theorem sendMessage_deterministic:
  assumes "chatWindow_children s1 = chatWindow_children s2"
    and "userInput_value s1 = userInput_value s2"
  shows "chatWindow_children (sendMessage L1 s1) = chatWindow_children (sendMessage L2 s2) \<and>
     userInput_value (sendMessage L1 s1) = userInput_value (sendMessage L2 s2) \<and>
     map captured (drop (length (timers s1)) (timers (sendMessage L1 s1)))
       = map captured (drop (length (timers s2)) (timers (sendMessage L2 s2))) \<and>
     chatWindow_children (timeout_callback L1 t s1) = chatWindow_children (timeout_callback L2 t s2) \<and>
     (timers s1 = [] \<and> timers s2 = [] \<longrightarrow>
        (\<forall>d1 d2 r1 r2.
           run L1 [Dispatch SendBtn click, Elapse d1, TimerTask] s1 = Some r1 \<and>
           run L2 [Dispatch SendBtn click, Elapse d2, TimerTask] s2 = Some r2 \<longrightarrow>
           chatWindow_children r1 = chatWindow_children r2 \<and>
           userInput_value r1 = userInput_value r2)) \<and>
     (timers s1 = [] \<and> timers s2 = [] \<and> trim (userInput_value s1) \<noteq> [] \<longrightarrow>
        (\<forall>d1\<ge>1000. \<forall>d2\<ge>1000. \<exists>r1 r2.
           run L1 [Dispatch SendBtn click, Elapse d1, TimerTask] s1 = Some r1 \<and>
           run L2 [Dispatch SendBtn click, Elapse d2, TimerTask] s2 = Some r2 \<and>
           chatWindow_children r1 = chatWindow_children r2 \<and>
           userInput_value r1 = userInput_value r2))"
proof -
  have a: "chatWindow_children (sendMessage L1 s1) = chatWindow_children (sendMessage L2 s2) \<and>
     userInput_value (sendMessage L1 s1) = userInput_value (sendMessage L2 s2) \<and>
     map captured (drop (length (timers s1)) (timers (sendMessage L1 s1)))
       = map captured (drop (length (timers s2)) (timers (sendMessage L2 s2)))"
    using assms
    by (cases "trim (userInput_value s2) = []") (simp_all add: sendMessage_noop sendMessage_eq)
  have b: "chatWindow_children (timeout_callback L1 t s1) = chatWindow_children (timeout_callback L2 t s2)"
    using assms by (simp add: timeout_callback_eq)
  have c: "timers s1 = [] \<and> timers s2 = [] \<longrightarrow>
        (\<forall>d1 d2 r1 r2.
           run L1 [Dispatch SendBtn click, Elapse d1, TimerTask] s1 = Some r1 \<and>
           run L2 [Dispatch SendBtn click, Elapse d2, TimerTask] s2 = Some r2 \<longrightarrow>
           chatWindow_children r1 = chatWindow_children r2 \<and>
           userInput_value r1 = userInput_value r2)"
  proof (intro impI allI)
    fix d1 d2 r1 r2
    assume t: "timers s1 = [] \<and> timers s2 = []"
      and r: "run L1 [Dispatch SendBtn click, Elapse d1, TimerTask] s1 = Some r1 \<and>
           run L2 [Dispatch SendBtn click, Elapse d2, TimerTask] s2 = Some r2"
    from r t run_submit_fire_result [of L1 d1 s1 r1] have "chatWindow_children r1 = chatWindow_children s1 @
           [userMessageDiv (trim (userInput_value s1)), aiMessageDiv (trim (userInput_value s1))] \<and>
         userInput_value r1 = []"
      by blast
    moreover from r t run_submit_fire_result [of L2 d2 s2 r2] have "chatWindow_children r2 = chatWindow_children s2 @
           [userMessageDiv (trim (userInput_value s2)), aiMessageDiv (trim (userInput_value s2))] \<and>
         userInput_value r2 = []"
      by blast
    ultimately show "chatWindow_children r1 = chatWindow_children r2 \<and>
           userInput_value r1 = userInput_value r2"
      using assms by simp
  qed
  have d: "timers s1 = [] \<and> timers s2 = [] \<and> trim (userInput_value s1) \<noteq> [] \<longrightarrow>
        (\<forall>d1\<ge>1000. \<forall>d2\<ge>1000. \<exists>r1 r2.
           run L1 [Dispatch SendBtn click, Elapse d1, TimerTask] s1 = Some r1 \<and>
           run L2 [Dispatch SendBtn click, Elapse d2, TimerTask] s2 = Some r2 \<and>
           chatWindow_children r1 = chatWindow_children r2 \<and>
           userInput_value r1 = userInput_value r2)"
  proof (intro impI allI)
    fix d1 d2 :: nat
    assume h: "timers s1 = [] \<and> timers s2 = [] \<and> trim (userInput_value s1) \<noteq> []"
      and d1: "1000 \<le> d1" and d2: "1000 \<le> d2"
    from h assms(2) have ne2: "trim (userInput_value s2) \<noteq> []" by simp
    from run_submit_fire [OF refl _ _ d1, of s1 L1] h
    obtain r1 where r1: "run L1 [Dispatch SendBtn click, Elapse d1, TimerTask] s1 = Some r1"
      "chatWindow_children r1 = chatWindow_children s1 @
         [userMessageDiv (trim (userInput_value s1)), aiMessageDiv (trim (userInput_value s1))]"
      "userInput_value r1 = []"
      by blast
    from run_submit_fire [OF refl ne2 _ d2, of L2] h
    obtain r2 where r2: "run L2 [Dispatch SendBtn click, Elapse d2, TimerTask] s2 = Some r2"
      "chatWindow_children r2 = chatWindow_children s2 @
         [userMessageDiv (trim (userInput_value s2)), aiMessageDiv (trim (userInput_value s2))]"
      "userInput_value r2 = []"
      by blast
    from r1 r2 assms have "chatWindow_children r1 = chatWindow_children r2"
      "userInput_value r1 = userInput_value r2"
      by simp_all
    with r1(1) r2(1)
    show "\<exists>r1 r2.
           run L1 [Dispatch SendBtn click, Elapse d1, TimerTask] s1 = Some r1 \<and>
           run L2 [Dispatch SendBtn click, Elapse d2, TimerTask] s2 = Some r2 \<and>
           chatWindow_children r1 = chatWindow_children r2 \<and>
           userInput_value r1 = userInput_value r2"
      by blast
  qed
  from a b c d show ?thesis by blast
qed

theorem sendMessage_deterministic_witness:
  "chatWindow_children hello_page = chatWindow_children later_page \<and>
   userInput_value hello_page = userInput_value later_page \<and>
   now hello_page \<noteq> now later_page \<and>
   timers hello_page = [] \<and> timers later_page = [] \<and> trim (userInput_value hello_page) \<noteq> [] \<and>
   chatWindow_children (sendMessage example_layout hello_page)
     = chatWindow_children (sendMessage other_layout later_page) \<and>
   userInput_value (sendMessage example_layout hello_page)
     = userInput_value (sendMessage other_layout later_page) \<and>
   (\<exists>r1 r2.
      run example_layout [Dispatch SendBtn click, Elapse 1000, TimerTask] hello_page = Some r1 \<and>
      run other_layout [Dispatch SendBtn click, Elapse 2500, TimerTask] later_page = Some r2 \<and>
      chatWindow_children r1 = chatWindow_children r2 \<and>
      userInput_value r1 = userInput_value r2)"
proof -
  have c: "chatWindow_children hello_page = chatWindow_children later_page"
    and v: "userInput_value hello_page = userInput_value later_page"
    and n: "now hello_page \<noteq> now later_page"
    and t: "timers hello_page = []" "timers later_page = []"
    by (simp_all add: later_page_def hello_page_def empty_page_def)
  have ne: "trim (userInput_value hello_page) \<noteq> []"
    by (simp add: hello_page_def trim_def js_def isWhiteSpace_def)
  note T = sendMessage_deterministic [OF c v, of example_layout other_layout]
  from T have a: "chatWindow_children (sendMessage example_layout hello_page)
     = chatWindow_children (sendMessage other_layout later_page)"
    by blast
  from T have b: "userInput_value (sendMessage example_layout hello_page)
     = userInput_value (sendMessage other_layout later_page)"
    by blast
  from T t ne have "\<forall>d1\<ge>1000. \<forall>d2\<ge>1000. \<exists>r1 r2.
           run example_layout [Dispatch SendBtn click, Elapse d1, TimerTask] hello_page = Some r1 \<and>
           run other_layout [Dispatch SendBtn click, Elapse d2, TimerTask] later_page = Some r2 \<and>
           chatWindow_children r1 = chatWindow_children r2 \<and>
           userInput_value r1 = userInput_value r2"
    by blast
  then have e: "\<exists>r1 r2.
      run example_layout [Dispatch SendBtn click, Elapse 1000, TimerTask] hello_page = Some r1 \<and>
      run other_layout [Dispatch SendBtn click, Elapse 2500, TimerTask] later_page = Some r2 \<and>
      chatWindow_children r1 = chatWindow_children r2 \<and>
      userInput_value r1 = userInput_value r2"
    by simp
  from c v n t ne a b e show ?thesis by blast
qed

end
